theory Spec2Isabelle
  imports Complex_Main "HOL-Library.Char_ord"
begin

section \<open>Python floats\<close>

text \<open>
  The stage fields are Python floats. They are modelled as the extended reals with a
  not-a-number value: arithmetic on finite values is exact real arithmetic (rounding,
  overflow to infinity and the sign of zero are not modelled), while the infinities and
  NaN follow IEEE 754 as Python exposes it. Division by zero raises ZeroDivisionError
  in Python, so \<open>fdiv\<close> returns \<open>None\<close> there.
\<close>

datatype pyfloat = Fin real | PInf | NInf | NaN

fun fneg :: "pyfloat \<Rightarrow> pyfloat" where
  "fneg (Fin a) = Fin (- a)"
| "fneg PInf = NInf"
| "fneg NInf = PInf"
| "fneg NaN = NaN"

fun fabs :: "pyfloat \<Rightarrow> pyfloat" where
  "fabs (Fin a) = Fin \<bar>a\<bar>"
| "fabs PInf = PInf"
| "fabs NInf = PInf"
| "fabs NaN = NaN"

fun fadd :: "pyfloat \<Rightarrow> pyfloat \<Rightarrow> pyfloat" where
  "fadd (Fin a) (Fin b) = Fin (a + b)"
| "fadd NaN _ = NaN"
| "fadd _ NaN = NaN"
| "fadd PInf NInf = NaN"
| "fadd NInf PInf = NaN"
| "fadd PInf _ = PInf"
| "fadd NInf _ = NInf"
| "fadd _ PInf = PInf"
| "fadd _ NInf = NInf"

definition fsub :: "pyfloat \<Rightarrow> pyfloat \<Rightarrow> pyfloat" where
  "fsub a b = fadd a (fneg b)"

text \<open>The sign of a float as seen by multiplication and division: 1, 0 or -1.\<close>

fun fsign :: "pyfloat \<Rightarrow> int" where
  "fsign (Fin a) = (if a > 0 then 1 else if a < 0 then -1 else 0)"
| "fsign PInf = 1"
| "fsign NInf = -1"
| "fsign NaN = 0"

definition inf_of_sign :: "int \<Rightarrow> pyfloat" where
  "inf_of_sign s = (if s > 0 then PInf else if s < 0 then NInf else NaN)"

fun fmul :: "pyfloat \<Rightarrow> pyfloat \<Rightarrow> pyfloat" where
  "fmul (Fin a) (Fin b) = Fin (a * b)"
| "fmul NaN _ = NaN"
| "fmul _ NaN = NaN"
| "fmul a b = inf_of_sign (fsign a * fsign b)"

fun fdiv :: "pyfloat \<Rightarrow> pyfloat \<Rightarrow> pyfloat option" where
  "fdiv a (Fin b) =
     (if b = 0 then None
      else (case a of Fin x \<Rightarrow> Some (Fin (x / b))
            | NaN \<Rightarrow> Some NaN
            | _ \<Rightarrow> Some (inf_of_sign (fsign a * fsign (Fin b)))))"
| "fdiv a NaN = Some NaN"
| "fdiv (Fin x) _ = Some (Fin 0)"
| "fdiv _ _ = Some NaN"

fun flt :: "pyfloat \<Rightarrow> pyfloat \<Rightarrow> bool" where
  "flt NaN _ = False"
| "flt _ NaN = False"
| "flt (Fin a) (Fin b) = (a < b)"
| "flt PInf _ = False"
| "flt _ PInf = True"
| "flt NInf (Fin b) = True"
| "flt NInf NInf = False"
| "flt (Fin a) NInf = False"

fun fle :: "pyfloat \<Rightarrow> pyfloat \<Rightarrow> bool" where
  "fle NaN _ = False"
| "fle _ NaN = False"
| "fle a b = (a = b \<or> flt a b)"

definition fgt :: "pyfloat \<Rightarrow> pyfloat \<Rightarrow> bool" where
  "fgt a b = flt b a"

text \<open>Python's \<open>!=\<close> on floats: NaN differs from everything, itself included.\<close>

definition fne :: "pyfloat \<Rightarrow> pyfloat \<Rightarrow> bool" where
  "fne a b = (a = NaN \<or> b = NaN \<or> a \<noteq> b)"

fun isfinite :: "pyfloat \<Rightarrow> bool" where
  "isfinite (Fin _) = True"
| "isfinite _ = False"

text \<open>
  The builtins \<open>min(a, b)\<close> and \<open>max(a, b)\<close> keep the first argument unless the
  second is strictly smaller (larger).
\<close>

definition pymin :: "pyfloat \<Rightarrow> pyfloat \<Rightarrow> pyfloat" where
  "pymin a b = (if flt b a then b else a)"

definition pymax :: "pyfloat \<Rightarrow> pyfloat \<Rightarrow> pyfloat" where
  "pymax a b = (if fgt b a then b else a)"

section \<open>Strings\<close>

text \<open>\<open>str.upper()\<close> on ASCII text; truthiness of an \<open>Optional[str]\<close>.\<close>

definition upper_char :: "char \<Rightarrow> char" where
  "upper_char c =
     (if CHR ''a'' \<le> c \<and> c \<le> CHR ''z'' then char_of (of_char c - (32::nat)) else c)"

definition upper :: "string \<Rightarrow> string" where
  "upper s = map upper_char s"

fun truthy :: "string option \<Rightarrow> bool" where
  "truthy None = False"
| "truthy (Some s) = (s \<noteq> [])"

section \<open>The stage record (model/stage.py)\<close>

text \<open>
  The error strings are f-strings over the stage name and some floats. A diagnostic is
  kept as the message kind with the values that are formatted into it, in the order
  they appear in the message.
\<close>

datatype diag =
    SourceRange string pyfloat pyfloat pyfloat
  | LdoDropout string pyfloat pyfloat
  | IcMaxCurrent string pyfloat pyfloat
  | VinRange string pyfloat pyfloat pyfloat
  | TotalLoadOver string pyfloat pyfloat
  | TotalLoadClose string pyfloat pyfloat

record stage =
  stage_id :: string
  stage_type :: string
  name :: string
  ic_name :: string
  vin_min :: pyfloat
  vin_max :: pyfloat
  vin_nom :: pyfloat
  vout :: pyfloat
  iout_user :: pyfloat
  iout_max_ic :: pyfloat
  efficiency_user :: pyfloat
  iq :: pyfloat
  notes_txt :: string
  upstream :: "string option"
  color :: string
  vin_effective :: pyfloat
  eff_effective :: pyfloat
  p_out :: pyfloat
  p_in :: pyfloat
  p_diss :: pyfloat
  p_iq :: pyfloat
  p_tot :: pyfloat
  i_in :: pyfloat
  load_current :: pyfloat
  errors :: "diag list"

text \<open>
  The dataclass defaults. The identifier is a fresh \<open>uuid4\<close> string, taken here as a
  parameter.
\<close>

definition PowerStage :: "string \<Rightarrow> stage" where
  "PowerStage uid =
     \<lparr> stage_id = uid, stage_type = ''LDO'', name = ''Stage'', ic_name = '''',
       vin_min = Fin 0, vin_max = Fin 20, vin_nom = Fin 12, vout = Fin 12,
       iout_user = Fin 0, iout_max_ic = Fin 1, efficiency_user = Fin 0.9, iq = Fin 0,
       notes_txt = '''', upstream = None, color = ''ffffff'',
       vin_effective = Fin 0, eff_effective = Fin 1, p_out = Fin 0, p_in = Fin 0,
       p_diss = Fin 0, p_iq = Fin 0, p_tot = Fin 0, i_in = Fin 0,
       load_current = Fin 0, errors = [] \<rparr>"

subsection \<open>compute\<close>

definition compute_input :: "stage \<Rightarrow> stage" where
  "compute_input s =
     (let s1 = (if \<not> (fle (vin_min s) (vout s) \<and> fle (vout s) (vin_max s))
                then s\<lparr>errors := errors s @
                       [SourceRange (name s) (vout s) (vin_min s) (vin_max s)]\<rparr>
                else s);
          s2 = s1\<lparr>p_out := fmul (vout s1) (iout_user s1)\<rparr>;
          s3 = s2\<lparr>p_in := p_out s2\<rparr>
      in s3\<lparr>i_in := iout_user s3\<rparr>)"

definition compute_load :: "stage \<Rightarrow> pyfloat option \<Rightarrow> stage" where
  "compute_load s upstream_vout =
     (let s1 = s\<lparr>vin_nom := (case upstream_vout of Some v \<Rightarrow> v | None \<Rightarrow> vin_nom s)\<rparr>;
          s2 = s1\<lparr>vout := vin_nom s1\<rparr>;
          s3 = s2\<lparr>p_out := fmul (fabs (vout s2)) (load_current s2)\<rparr>;
          s4 = s3\<lparr>p_in := p_out s3\<rparr>
      in s4\<lparr>i_in := load_current s4\<rparr>)"

definition ldo_dropout_check :: "string \<Rightarrow> stage \<Rightarrow> stage" where
  "ldo_dropout_check stype s =
     (if stype = ''LDO'' \<and> fle (fabs (vin_effective s)) (fadd (fabs (vout s)) (Fin 0.1))
      then s\<lparr>errors := errors s @ [LdoDropout (name s) (vin_effective s) (vout s)]\<rparr>
      else s)"

definition reg_efficiency :: "string \<Rightarrow> stage \<Rightarrow> pyfloat option" where
  "reg_efficiency stype s =
     (if stype = ''LDO''
      then (if fne (vin_effective s) (Fin 0)
            then fdiv (fabs (vout s)) (fabs (vin_effective s))
            else Some (Fin 0))
      else Some (pymax (Fin 0) (pymin (Fin 1) (efficiency_user s))))"

text \<open>Output, input and quiescent power, dissipation, for the efficiency \<open>eff\<close>.\<close>

definition reg_power :: "pyfloat \<Rightarrow> stage \<Rightarrow> stage option" where
  "reg_power eff s =
     (let s3 = s\<lparr>p_out := fmul (fabs (vout s)) (iout_user s)\<rparr>
      in case (if fgt eff (Fin 0) then fdiv (p_out s3) eff else Some PInf) of
           None \<Rightarrow> None
         | Some pin \<Rightarrow>
            (let s4 = s3\<lparr>p_in := pin\<rparr>
             in case (if fne (vin_effective s4) (Fin 0)
                      then fdiv (p_in s4) (fabs (vin_effective s4))
                      else Some PInf) of
                  None \<Rightarrow> None
                | Some iin \<Rightarrow>
                   (let s5 = s4\<lparr>i_in := iin\<rparr>
                    in case fdiv (iq s5) (Fin 1000000) of
                         None \<Rightarrow> None
                       | Some q \<Rightarrow>
                          (let s6 = s5\<lparr>p_iq := fmul q (vin_effective s5)\<rparr>;
                               s7 = s6\<lparr>p_diss := (if isfinite (p_in s6)
                                                   then fsub (p_in s6) (p_out s6)
                                                   else PInf)\<rparr>
                           in Some (s7\<lparr>p_tot := fadd (if isfinite (p_diss s7)
                                                        then p_diss s7 else Fin 0)
                                                       (p_iq s7)\<rparr>)))))"

definition reg_checks :: "stage \<Rightarrow> stage" where
  "reg_checks s =
     (let s9 = (if flt (iout_max_ic s) (iout_user s)
                then s\<lparr>errors := errors s @
                       [IcMaxCurrent (name s) (iout_max_ic s) (iout_user s)]\<rparr>
                else s)
      in if \<not> (fle (fmul (vin_min s9) (Fin 1.05)) (vin_effective s9) \<and>
                fle (vin_effective s9) (fmul (vin_max s9) (Fin 0.95)))
         then s9\<lparr>errors := errors s9 @
                [VinRange (name s9) (vin_effective s9)
                   (fmul (vin_min s9) (Fin 1.1)) (fmul (vin_max s9) (Fin 0.9))]\<rparr>
         else s9)"

definition compute_reg :: "string \<Rightarrow> stage \<Rightarrow> stage option" where
  "compute_reg stype s =
     (let s1 = ldo_dropout_check stype s
      in case reg_efficiency stype s1 of
           None \<Rightarrow> None
         | Some eff0 \<Rightarrow>
            (let eff = pymax (Fin 0) (pymin (Fin 1) eff0)
             in case reg_power eff (s1\<lparr>eff_effective := eff\<rparr>) of
                  None \<Rightarrow> None
                | Some s8 \<Rightarrow> Some (reg_checks s8)))"

text \<open>
  \<open>PowerStage.compute\<close>: \<open>None\<close> stands for an exception leaving the method. A
  stage whose type is none of INPUT, LOAD, LDO, DCDC falls through all branches with
  only the errors cleared and \<open>vin_effective\<close> set.
\<close>

definition compute :: "stage \<Rightarrow> pyfloat option \<Rightarrow> stage option" where
  "compute s upstream_vout =
     (let s0 = s\<lparr>errors := []\<rparr>;
          vin = (case upstream_vout of Some v \<Rightarrow> v | None \<Rightarrow> vin_nom s0);
          s1 = s0\<lparr>vin_effective := vin\<rparr>;
          stype = upper (stage_type s1)
      in if stype = ''INPUT'' then Some (compute_input s1)
         else if stype = ''LOAD'' then Some (compute_load s1 upstream_vout)
         else if stype = ''LDO'' \<or> stype = ''DCDC'' then compute_reg stype s1
         else Some s1)"


section \<open>The scene (graphics/scene.py)\<close>

text \<open>
  \<open>PowerScene.nodes\<close> is a dict from stage id to NodeItem, read in insertion order;
  every entry is stored under the id of its own stage, which is never edited afterwards.
  It is modelled as the list of the stages in insertion order, so the ids of a list
  that represents a dict are distinct. \<open>PowerScene.edges\<close> is the list of EdgeItems,
  kept as the pairs of the ids of their end nodes. Node positions and the other Qt
  items are left out.
\<close>

record scene =
  nodes :: "stage list"
  edges :: "(string \<times> string) list"

definition nodes_get :: "stage list \<Rightarrow> string \<Rightarrow> stage option" where
  "nodes_get ns k = find (\<lambda>n. stage_id n = k) ns"

text \<open>\<open>self.nodes[k] = item\<close>: a known key keeps its place, a new one goes last.\<close>

definition nodes_put :: "stage list \<Rightarrow> stage \<Rightarrow> stage list" where
  "nodes_put ns s =
     (if stage_id s \<in> set (map stage_id ns)
      then map (\<lambda>n. if stage_id n = stage_id s then s else n) ns
      else ns @ [s])"

text \<open>Mutation of the stage of the node with key \<open>k\<close>.\<close>

definition update_node :: "stage list \<Rightarrow> string \<Rightarrow> (stage \<Rightarrow> stage) \<Rightarrow> stage list" where
  "update_node ns k f = map (\<lambda>n. if stage_id n = k then f n else n) ns"

definition children :: "stage list \<Rightarrow> string \<Rightarrow> stage list" where
  "children ns k = filter (\<lambda>n. upstream n = Some k) ns"

subsection \<open>Kahn's algorithm\<close>

text \<open>
  The same loop is written out twice in the source, in \<open>compute_requested_currents\<close>
  and in \<open>recompute_all\<close>. The work stack and the order hold NodeItems, given here by
  their ids.
\<close>

definition incoming_count :: "stage list \<Rightarrow> string \<Rightarrow> int" where
  "incoming_count ns =
     fold (\<lambda>n c. if truthy (upstream n) then c(stage_id n := c (stage_id n) + 1) else c)
       ns (\<lambda>_. 0)"

definition kahn_neighbor ::
  "string \<Rightarrow> string list \<Rightarrow> stage \<Rightarrow> (string \<Rightarrow> int) \<times> string list
     \<Rightarrow> (string \<Rightarrow> int) \<times> string list" where
  "kahn_neighbor cur visited nb st =
     (case st of (cnt, stack) \<Rightarrow>
        if upstream nb = Some cur
        then (let cnt' = cnt(stage_id nb := cnt (stage_id nb) - 1)
              in if cnt' (stage_id nb) = 0 \<and> stage_id nb \<notin> set visited
                 then (cnt', stack @ [stage_id nb])
                 else (cnt', stack))
        else (cnt, stack))"

definition pos_count :: "stage list \<Rightarrow> (string \<Rightarrow> int) \<Rightarrow> nat" where
  "pos_count ns cnt = length (filter (\<lambda>n. cnt (stage_id n) > 0) ns)"

function kahn_loop ::
  "stage list \<Rightarrow> string list \<Rightarrow> (string \<Rightarrow> int) \<Rightarrow> string list \<Rightarrow> string list
     \<Rightarrow> string list" where
  "kahn_loop ns work_stack cnt order visited =
     (if work_stack = [] then order
      else (let current = last work_stack;
                visited' = current # visited;
                st = fold (kahn_neighbor current visited') ns (cnt, butlast work_stack)
            in kahn_loop ns (snd st) (fst st) (order @ [current]) visited'))"
  by pat_completeness auto


text \<open>
  Each round pops one node and pushes only nodes whose count just dropped from one to
  zero, so the loop ends on every input.
\<close>


lemma filter_length_mono:
  "(\<And>n. n \<in> set ns \<Longrightarrow> P' n \<Longrightarrow> P n) \<Longrightarrow> length (filter P' ns) \<le> length (filter P ns)"
  by (induction ns) auto

lemma filter_length_strict:
  "(\<And>n. n \<in> set ns \<Longrightarrow> P' n \<Longrightarrow> P n) \<Longrightarrow> x \<in> set ns \<Longrightarrow> P x \<Longrightarrow> \<not> P' x
     \<Longrightarrow> length (filter P' ns) < length (filter P ns)"
proof (induction ns)
  case Nil then show ?case by simp
next
  case (Cons a ns)
  have m: "length (filter P' ns) \<le> length (filter P ns)"
    using Cons.prems(1) by (intro filter_length_mono) auto
  show ?case
  proof (cases "x = a")
    case True
    then show ?thesis using Cons.prems m by auto
  next
    case False
    then have "length (filter P' ns) < length (filter P ns)"
      using Cons by auto
    then show ?thesis using Cons.prems(1)[of a] by auto
  qed
qed

lemma kahn_neighbor_measure:
  assumes "nb \<in> set ns"
  shows "2 * pos_count ns (fst (kahn_neighbor cur vis nb (cnt, st)))
           + length (snd (kahn_neighbor cur vis nb (cnt, st)))
         \<le> 2 * pos_count ns cnt + length st"
proof (cases "upstream nb = Some cur")
  case False
  then show ?thesis by (simp add: kahn_neighbor_def)
next
  case True
  let ?cnt' = "cnt(stage_id nb := cnt (stage_id nb) - 1)"
  have le: "pos_count ns ?cnt' \<le> pos_count ns cnt"
    unfolding pos_count_def by (rule filter_length_mono) (auto split: if_splits)
  show ?thesis
  proof (cases "?cnt' (stage_id nb) = 0 \<and> stage_id nb \<notin> set vis")
    case False
    then show ?thesis using True le by (auto simp: kahn_neighbor_def Let_def)
  next
    case push: True
    then have one: "cnt (stage_id nb) = 1" by simp
    have "pos_count ns ?cnt' < pos_count ns cnt"
      unfolding pos_count_def
      by (rule filter_length_strict[where x = nb]) (use assms one in \<open>auto split: if_splits\<close>)
    then show ?thesis using True push by (auto simp: kahn_neighbor_def Let_def)
  qed
qed

lemma kahn_fold_measure:
  "set xs \<subseteq> set ns \<Longrightarrow>
   2 * pos_count ns (fst (fold (kahn_neighbor cur vis) xs (cnt, st)))
     + length (snd (fold (kahn_neighbor cur vis) xs (cnt, st)))
   \<le> 2 * pos_count ns cnt + length st"
proof (induction xs arbitrary: cnt st)
  case Nil then show ?case by simp
next
  case (Cons x xs)
  obtain c1 s1 where k: "kahn_neighbor cur vis x (cnt, st) = (c1, s1)" by (cases "kahn_neighbor cur vis x (cnt, st)")
  have a: "2 * pos_count ns c1 + length s1 \<le> 2 * pos_count ns cnt + length st"
    using kahn_neighbor_measure[of x ns cur vis cnt st] Cons.prems k by simp
  have b: "2 * pos_count ns (fst (fold (kahn_neighbor cur vis) xs (c1, s1)))
     + length (snd (fold (kahn_neighbor cur vis) xs (c1, s1))) \<le> 2 * pos_count ns c1 + length s1"
    using Cons.IH Cons.prems by simp
  show ?case using a b k by simp
qed

termination kahn_loop
proof (relation "measure (\<lambda>(ns, st, cnt, order, visited). 2 * pos_count ns cnt + length st)", goal_cases)
  case 1 show ?case by simp
next
  case (2 ns work_stack cnt order visited x xa xb)
  have "2 * pos_count ns (fst xb) + length (snd xb) \<le> 2 * pos_count ns cnt + length (butlast work_stack)"
    using kahn_fold_measure[of ns ns x xa cnt "butlast work_stack"] 2 by simp
  moreover have "length (butlast work_stack) < length work_stack" using 2 by simp
  ultimately show ?case by simp
qed


declare kahn_loop.simps [simp del]

definition kahn_order :: "stage list \<Rightarrow> string list" where
  "kahn_order ns =
     (let cnt = incoming_count ns
      in kahn_loop ns (map stage_id (filter (\<lambda>n. cnt (stage_id n) = 0) ns)) cnt [] [])"

subsection \<open>compute\_requested\_currents\<close>

definition requested_current :: "stage list \<Rightarrow> stage \<Rightarrow> pyfloat" where
  "requested_current ns n =
     (if upper (stage_type n) = ''LOAD'' then load_current n
      else foldl fadd (Fin 0) (map i_in (children ns (stage_id n))))"

definition compute_requested_currents :: "stage list \<Rightarrow> stage list" where
  "compute_requested_currents ns =
     fold (\<lambda>k cur. update_node cur k (\<lambda>n. n\<lparr>iout_user := requested_current cur n\<rparr>))
       (rev (kahn_order ns)) ns"

subsection \<open>depth\<close>

text \<open>
  \<open>depth\<close> recurses over the children with no guard. A descent through more nodes
  than the scene holds passes through some node twice and so never ends: Python stops
  it with RecursionError. The recursion is run with one unit of fuel per node of the
  scene and one to spare; \<open>None\<close> is the exception.
\<close>

fun depth_fuel :: "nat \<Rightarrow> stage list \<Rightarrow> string \<Rightarrow> nat option" where
  "depth_fuel 0 ns k = None"
| "depth_fuel (Suc f) ns k =
     (let cs = children ns k
      in if cs = [] then Some 1
         else (case those (map (\<lambda>c. depth_fuel f ns (stage_id c)) cs) of
                 None \<Rightarrow> None
               | Some ds \<Rightarrow> Some (1 + fold max ds 0)))"

definition depth :: "stage list \<Rightarrow> string \<Rightarrow> nat option" where
  "depth ns k = depth_fuel (Suc (length ns)) ns k"

subsection \<open>recompute\_all\<close>

fun max_depth_loop :: "stage list \<Rightarrow> stage list \<Rightarrow> nat \<Rightarrow> nat option" where
  "max_depth_loop ns [] m = Some m"
| "max_depth_loop ns (n # rest) m =
     (if upper (stage_type n) = ''INPUT''
      then (case depth ns (stage_id n) of
              None \<Rightarrow> None
            | Some d \<Rightarrow> max_depth_loop ns rest (max m d))
      else max_depth_loop ns rest m)"

text \<open>The order of one pass: Kahn's order, then the nodes it did not reach.\<close>

definition pass_order :: "stage list \<Rightarrow> string list" where
  "pass_order ns =
     (let order = kahn_order ns
      in order @ filter (\<lambda>k. k \<notin> set order) (map stage_id ns))"

definition upstream_vout :: "stage list \<Rightarrow> stage \<Rightarrow> pyfloat option" where
  "upstream_vout ns n =
     (case upstream n of
        None \<Rightarrow> None
      | Some up \<Rightarrow>
         if truthy (Some up)
         then (case nodes_get ns up of
                 Some upstream_node \<Rightarrow> Some (vout upstream_node)
               | None \<Rightarrow> None)
         else None)"

fun compute_nodes :: "string list \<Rightarrow> stage list \<Rightarrow> stage list option" where
  "compute_nodes [] ns = Some ns"
| "compute_nodes (k # ks) ns =
     (case nodes_get ns k of
        None \<Rightarrow> compute_nodes ks ns
      | Some n \<Rightarrow>
         (case compute n (upstream_vout ns n) of
            None \<Rightarrow> None
          | Some n' \<Rightarrow> compute_nodes ks (update_node ns k (\<lambda>_. n'))))"

definition supply_check :: "stage list \<Rightarrow> stage \<Rightarrow> stage" where
  "supply_check ns n =
     (if upper (stage_type n) = ''INPUT''
      then (let total_request = foldl fadd (Fin 0) (map iout_user (children ns (stage_id n)))
            in if fgt total_request (iout_max_ic n)
               then n\<lparr>errors := errors n @
                      [TotalLoadOver (name n) total_request (iout_max_ic n)]\<rparr>
               else if fgt total_request (fmul (iout_max_ic n) (Fin 0.9))
               then n\<lparr>errors := errors n @
                      [TotalLoadClose (name n) total_request (iout_max_ic n)]\<rparr>
               else n)
      else n)"

definition check_inputs :: "stage list \<Rightarrow> stage list" where
  "check_inputs ns =
     fold (\<lambda>k cur. update_node cur k (supply_check cur)) (map stage_id ns) ns"

definition one_pass :: "stage list \<Rightarrow> stage list option" where
  "one_pass ns =
     (let ns1 = compute_requested_currents ns
      in case compute_nodes (pass_order ns1) ns1 of
           None \<Rightarrow> None
         | Some ns2 \<Rightarrow> Some (check_inputs ns2))"

fun run_passes :: "nat \<Rightarrow> stage list \<Rightarrow> stage list option" where
  "run_passes 0 ns = Some ns"
| "run_passes (Suc p) ns =
     (case one_pass ns of None \<Rightarrow> None | Some ns' \<Rightarrow> run_passes p ns')"

definition recompute_nodes :: "stage list \<Rightarrow> stage list option" where
  "recompute_nodes ns =
     (case max_depth_loop ns ns 0 of
        None \<Rightarrow> None
      | Some max_depth \<Rightarrow> run_passes (max 1 max_depth) ns)"

definition recompute_all :: "scene \<Rightarrow> scene option" where
  "recompute_all g = map_option (\<lambda>ns. g\<lparr>nodes := ns\<rparr>) (recompute_nodes (nodes g))"


subsection \<open>add\_edge\<close>

text \<open>
  The walk up the chain from \<open>src\<close>. A node is visited at most once, so the loop ends.
\<close>

function creates_cycle_loop :: "stage list \<Rightarrow> string list \<Rightarrow> stage \<Rightarrow> string \<Rightarrow> bool" where
  "creates_cycle_loop ns visited current dst =
     (case upstream current of
        None \<Rightarrow> False
      | Some upid \<Rightarrow>
         if \<not> truthy (Some upid) then False
         else if upid \<in> set visited then False
         else (case nodes_get ns upid of
                 None \<Rightarrow> False
               | Some upnode \<Rightarrow>
                  if stage_id upnode = dst then True
                  else creates_cycle_loop ns (upid # visited) upnode dst))"
  by pat_completeness auto

lemma nodes_get_SomeD:
  "nodes_get ns k = Some n \<Longrightarrow> n \<in> set ns \<and> stage_id n = k"
  by (auto simp: nodes_get_def find_Some_iff)

termination creates_cycle_loop
proof (relation "measure (\<lambda>(ns, visited, current, dst).
                   card (stage_id ` set ns - set visited))", goal_cases)
  case 1
  show ?case by simp
next
  case (2 ns visited current dst upid upnode)
  then have "upid \<in> stage_id ` set ns - set visited"
    using nodes_get_SomeD[of ns upid upnode] by auto
  then have "card (stage_id ` set ns - set (upid # visited))
               < card (stage_id ` set ns - set visited)"
    by (intro psubset_card_mono) auto
  then show ?case by simp
qed

declare creates_cycle_loop.simps [simp del]

definition creates_cycle :: "stage list \<Rightarrow> stage \<Rightarrow> stage \<Rightarrow> bool" where
  "creates_cycle ns src dst = creates_cycle_loop ns [] src (stage_id dst)"

text \<open>
  The arguments of \<open>add_edge\<close> are NodeItems of the scene, named here by their ids;
  \<open>src is dst\<close> is then equality of the ids. An id with no node has no counterpart in
  the source and is answered with \<open>NotInScene\<close>. The result is the outcome together
  with the scene as the call leaves it: \<open>None\<close> is success (the new EdgeItem is
  returned), \<open>Some\<close> an exception leaving the call.

  Each of the three rejecting branches is written as a warning followed by
  \<open>return None\<close>. The warning is the call \<open>QMessageBox.warning(...)\<close>, and
  scene.py never imports \<open>QMessageBox\<close> (it imports only \<open>QGraphicsScene\<close>,
  \<open>QGraphicsItem\<close> and \<open>QGraphicsPathItem\<close> from \<open>PySide6.QtWidgets\<close>), so that
  looking the name up raises \<open>NameError\<close>: the call leaves \<open>add_edge\<close> by this
  exception, nothing is shown, \<open>return None\<close> is not reached, and the scene has not
  been touched. \<open>NameError r\<close> is this exception, raised in the branch that rejects
  for the reason \<open>r\<close>. \<open>RecomputeRaised\<close> stands for
  an exception leaving \<open>recompute_all\<close>, which happens in \<open>depth\<close>, before the first
  pass, so that the scene is then the one \<open>add_edge\<close> had built.
\<close>

datatype rejection = DestinationAlreadyConnected | SelfLoop | CycleDetected

datatype edge_error = NameError rejection | NotInScene | RecomputeRaised

definition add_edge :: "scene \<Rightarrow> string \<Rightarrow> string \<Rightarrow> edge_error option \<times> scene" where
  "add_edge g src dst =
     (case (nodes_get (nodes g) src, nodes_get (nodes g) dst) of
        (Some s, Some d) \<Rightarrow>
          if upstream d \<noteq> None then (Some (NameError DestinationAlreadyConnected), g)
          else if src = dst then (Some (NameError SelfLoop), g)
          else if creates_cycle (nodes g) s d then (Some (NameError CycleDetected), g)
          else (let g1 = g\<lparr>nodes := update_node (nodes g) dst (\<lambda>n. n\<lparr>upstream := Some src\<rparr>),
                             edges := edges g @ [(src, dst)]\<rparr>
                in case recompute_all g1 of
                     None \<Rightarrow> (Some RecomputeRaised, g1)
                   | Some g' \<Rightarrow> (None, g'))
      | _ \<Rightarrow> (Some NotInScene, g))"


subsection \<open>add\_stage and remove\_node\<close>

fun digits :: "nat \<Rightarrow> string" where
  "digits n = (if n < 10 then [char_of (48 + n)]
               else digits (n div 10) @ [char_of (48 + n mod 10)])"

definition color_map :: "string \<Rightarrow> string" where
  "color_map t =
     (if t = ''INPUT'' then ''#cfefff''
      else if t = ''LDO'' then ''#d4f7d4''
      else if t = ''DCDC'' then ''#fff2c2''
      else if t = ''LOAD'' then ''#e8e8e8''
      else ''#ffffff'')"

definition new_stage :: "string \<Rightarrow> string \<Rightarrow> nat \<Rightarrow> stage" where
  "new_stage uid t n =
     (let s0 = (PowerStage uid)\<lparr>stage_type := t, name := t @ ''_'' @ digits (n + 1)\<rparr>;
          s1 = s0\<lparr>color := color_map (upper t)\<rparr>
      in if upper t = ''INPUT''
         then s1\<lparr>vin_nom := Fin 12, vin_min := Fin 11, vin_max := Fin 13,
                 iout_max_ic := Fin 2\<rparr>
         else s1)"

definition add_stage :: "string \<Rightarrow> scene \<Rightarrow> string \<Rightarrow> scene option" where
  "add_stage uid g t =
     recompute_all (g\<lparr>nodes := nodes_put (nodes g) (new_stage uid t (length (nodes g)))\<rparr>)"

definition remove_node :: "scene \<Rightarrow> string \<Rightarrow> scene option" where
  "remove_node g k =
     recompute_all
       (g\<lparr>edges := filter (\<lambda>e. \<not> (fst e = k \<or> snd e = k)) (edges g),
          nodes := filter (\<lambda>n. stage_id n \<noteq> k)
                     (map (\<lambda>n. if upstream n = Some k then n\<lparr>upstream := None\<rparr> else n)
                        (nodes g))\<rparr>)"

subsection \<open>serialize and deserialize\<close>

text \<open>
  A stage record of a document is a dict; a key may be missing, which is \<open>None\<close>
  here. Keys that are no field of the dataclass are dropped by \<open>asdict\<close> and read by
  nothing, so they are left out. The position of a node is left out as well. A missing
  \<open>nodes\<close> or \<open>edges\<close> entry of the document is the empty list.
\<close>

record stage_dict =
  d_stage_id :: "string option"
  d_stage_type :: "string option"
  d_name :: "string option"
  d_ic_name :: "string option"
  d_vin_min :: "pyfloat option"
  d_vin_max :: "pyfloat option"
  d_vin_nom :: "pyfloat option"
  d_vout :: "pyfloat option"
  d_iout_user :: "pyfloat option"
  d_iout_max_ic :: "pyfloat option"
  d_efficiency_user :: "pyfloat option"
  d_iq :: "pyfloat option"
  d_notes_txt :: "string option"
  d_upstream :: "(string option) option"
  d_color :: "string option"
  d_vin_effective :: "pyfloat option"
  d_eff_effective :: "pyfloat option"
  d_p_out :: "pyfloat option"
  d_p_in :: "pyfloat option"
  d_p_diss :: "pyfloat option"
  d_p_iq :: "pyfloat option"
  d_p_tot :: "pyfloat option"
  d_i_in :: "pyfloat option"
  d_load_current :: "pyfloat option"
  d_errors :: "(diag list) option"

record document =
  doc_nodes :: "stage_dict list"
  doc_edges :: "(string \<times> string) list"

definition to_dict :: "stage \<Rightarrow> stage_dict" where
  "to_dict s =
     \<lparr> d_stage_id = Some (stage_id s),
       d_stage_type = Some (stage_type s),
       d_name = Some (name s),
       d_ic_name = Some (ic_name s),
       d_vin_min = Some (vin_min s),
       d_vin_max = Some (vin_max s),
       d_vin_nom = Some (vin_nom s),
       d_vout = Some (vout s),
       d_iout_user = Some (iout_user s),
       d_iout_max_ic = Some (iout_max_ic s),
       d_efficiency_user = Some (efficiency_user s),
       d_iq = Some (iq s),
       d_notes_txt = Some (notes_txt s),
       d_upstream = Some (upstream s),
       d_color = Some (color s),
       d_vin_effective = Some (vin_effective s),
       d_eff_effective = Some (eff_effective s),
       d_p_out = Some (p_out s),
       d_p_in = Some (p_in s),
       d_p_diss = Some (p_diss s),
       d_p_iq = Some (p_iq s),
       d_p_tot = Some (p_tot s),
       d_i_in = Some (i_in s),
       d_load_current = Some (load_current s),
       d_errors = Some (errors s) \<rparr>"


definition serialize :: "scene \<Rightarrow> document" where
  "serialize g = \<lparr> doc_nodes = map to_dict (nodes g), doc_edges = edges g \<rparr>"






section \<open>Scenario A\<close>

text \<open>
  The three stages as \<open>add_stage\<close> creates them, with the output voltage of the LDO and
  the current of the load edited, are connected by two calls of \<open>add_edge\<close>. The source
  is a stage of type INPUT, the name the code gives to what the specification calls
  SOURCE.
\<close>

definition scenario_a_nodes :: "stage list" where
  "scenario_a_nodes =
     [new_stage ''s'' ''INPUT'' 0,
      (new_stage ''r'' ''LDO'' 1)\<lparr>vout := Fin 5\<rparr>,
      (new_stage ''l'' ''LOAD'' 2)\<lparr>load_current := Fin 0.5\<rparr>]"

definition scenario_a :: "edge_error option list \<times> scene" where
  "scenario_a =
     (let r1 = add_edge \<lparr>nodes = scenario_a_nodes, edges = []\<rparr> ''s'' ''r'';
          r2 = add_edge (snd r1) ''r'' ''l''
      in ([fst r1, fst r2], snd r2))"

section \<open>Properties of compute\<close>

subsection \<open>The regulator branch never divides by zero\<close>

lemma fdiv_Some: "b \<noteq> Fin 0 \<Longrightarrow> \<exists>q. fdiv a b = Some q"
  by (cases b; cases a) auto

lemma fne_zero_fabs: "fne v (Fin 0) \<Longrightarrow> fabs v \<noteq> Fin 0"
  by (cases v) (auto simp: fne_def)

lemma fgt_zero_neq: "fgt e (Fin 0) \<Longrightarrow> e \<noteq> Fin 0"
  by (cases e) (auto simp: fgt_def)


lemma reg_power_Some:
  "\<exists>pin iin q. 
     (if fgt eff (Fin 0) then fdiv (fmul (fabs (vout s)) (iout_user s)) eff = Some pin
      else pin = PInf) \<and>
     (if fne (vin_effective s) (Fin 0) then fdiv pin (fabs (vin_effective s)) = Some iin
      else iin = PInf) \<and>
     fdiv (iq s) (Fin 1000000) = Some q \<and>
     reg_power eff s = Some (s\<lparr>p_out := fmul (fabs (vout s)) (iout_user s), p_in := pin,
        i_in := iin, p_iq := fmul q (vin_effective s),
        p_diss := (if isfinite pin then fsub pin (fmul (fabs (vout s)) (iout_user s)) else PInf),
        p_tot := fadd (if isfinite (if isfinite pin then fsub pin (fmul (fabs (vout s)) (iout_user s)) else PInf)
                       then (if isfinite pin then fsub pin (fmul (fabs (vout s)) (iout_user s)) else PInf)
                       else Fin 0) (fmul q (vin_effective s))\<rparr>)"
proof -
  define pout where "pout = fmul (fabs (vout s)) (iout_user s)"
  define pin_opt where "pin_opt = (if fgt eff (Fin 0) then fdiv pout eff else Some PInf)"
  have "\<exists>pin. pin_opt = Some pin"
    unfolding pin_opt_def using fdiv_Some[OF fgt_zero_neq, of eff pout] by simp
  then obtain pin where pin: "pin_opt = Some pin" ..
  define iin_opt where "iin_opt = (if fne (vin_effective s) (Fin 0)
                      then fdiv pin (fabs (vin_effective s)) else Some PInf)"
  have "\<exists>iin. iin_opt = Some iin"
    unfolding iin_opt_def using fdiv_Some[OF fne_zero_fabs, of "vin_effective s" pin] by simp
  then obtain iin where iin: "iin_opt = Some iin" ..
  obtain q where q: "fdiv (iq s) (Fin 1000000) = Some q"
    using fdiv_Some[of "Fin 1000000" "iq s"] by auto
  have 1: "(if fgt eff (Fin 0) then fdiv pout eff = Some pin else pin = PInf)"
    using pin unfolding pin_opt_def by (simp split: if_splits del: fdiv.simps)
  have 2: "(if fne (vin_effective s) (Fin 0) then fdiv pin (fabs (vin_effective s)) = Some iin
      else iin = PInf)"
    using iin unfolding iin_opt_def by (simp split: if_splits del: fdiv.simps)
  have 3: "reg_power eff s = Some (s\<lparr>p_out := pout, p_in := pin,
        i_in := iin, p_iq := fmul q (vin_effective s),
        p_diss := (if isfinite pin then fsub pin pout else PInf),
        p_tot := fadd (if isfinite (if isfinite pin then fsub pin pout else PInf)
                       then (if isfinite pin then fsub pin pout else PInf)
                       else Fin 0) (fmul q (vin_effective s))\<rparr>)"
  proof (cases "fgt eff (Fin 0)"; cases "fne (vin_effective s) (Fin 0)")
  qed (use 1 2 q in \<open>simp_all add: reg_power_def Let_def pout_def del: fdiv.simps\<close>)
  show ?thesis using 1 2 3 q unfolding pout_def by blast
qed


lemma reg_checks_errors: "reg_checks s = s\<lparr>errors := errors (reg_checks s)\<rparr>"
  by (simp add: reg_checks_def Let_def)

lemma ldo_dropout_check_errors:
  "ldo_dropout_check t s = s\<lparr>errors := errors (ldo_dropout_check t s)\<rparr>"
  by (simp add: ldo_dropout_check_def)


lemma reg_checks_fields:
  "vout (reg_checks s) = vout s" "iout_user (reg_checks s) = iout_user s"
  "iq (reg_checks s) = iq s" "vin_effective (reg_checks s) = vin_effective s"
  "eff_effective (reg_checks s) = eff_effective s" "p_out (reg_checks s) = p_out s"
  "p_in (reg_checks s) = p_in s" "i_in (reg_checks s) = i_in s" "p_iq (reg_checks s) = p_iq s"
  "p_diss (reg_checks s) = p_diss s" "p_tot (reg_checks s) = p_tot s"
  by (simp_all add: reg_checks_def Let_def)

lemma ldo_dropout_check_fields:
  "vout (ldo_dropout_check t s) = vout s" "iout_user (ldo_dropout_check t s) = iout_user s"
  "iq (ldo_dropout_check t s) = iq s"
  "vin_effective (ldo_dropout_check t s) = vin_effective s"
  by (simp_all add: ldo_dropout_check_def)


lemma reg_efficiency_cases:
  "\<exists>eff0. reg_efficiency t s = Some eff0 \<and>
     (if t = ''LDO''
      then (if fne (vin_effective s) (Fin 0)
            then fdiv (fabs (vout s)) (fabs (vin_effective s)) = Some eff0
            else eff0 = Fin 0)
      else eff0 = pymax (Fin 0) (pymin (Fin 1) (efficiency_user s)))"
  unfolding reg_efficiency_def
  using fdiv_Some[OF fne_zero_fabs, of "vin_effective s" "fabs (vout s)"]
  by (auto simp del: fdiv.simps)

lemma reg_result:
  assumes t: "t = ''LDO'' \<or> t = ''DCDC''"
  shows "\<exists>eff0 pin iin q.
     (let ldo = (t = ''LDO'');
          eff = pymax (Fin 0) (pymin (Fin 1) eff0);
          pout = fmul (fabs (vout s)) (iout_user s);
          piq = fmul q vin;
          pdiss = (if isfinite pin then fsub pin pout else PInf)
      in (if ldo
          then (if fne vin (Fin 0) then fdiv (fabs (vout s)) (fabs vin) = Some eff0
                else eff0 = Fin 0)
          else eff0 = pymax (Fin 0) (pymin (Fin 1) (efficiency_user s))) \<and>
         (if fgt eff (Fin 0) then fdiv pout eff = Some pin else pin = PInf) \<and>
         (if fne vin (Fin 0) then fdiv pin (fabs vin) = Some iin else iin = PInf) \<and>
         fdiv (iq s) (Fin 1000000) = Some q \<and>
         compute_reg t (s\<lparr>errors := [], vin_effective := vin\<rparr>) =
           Some (s\<lparr>vin_effective := vin, eff_effective := eff, p_out := pout, p_in := pin,
                   i_in := iin, p_iq := piq, p_diss := pdiss,
                   p_tot := fadd (if isfinite pdiss then pdiss else Fin 0) piq,
                   errors :=
                     (if ldo \<and> fle (fabs vin) (fadd (fabs (vout s)) (Fin 0.1))
                      then [LdoDropout (name s) vin (vout s)] else []) @
                     (if flt (iout_max_ic s) (iout_user s)
                      then [IcMaxCurrent (name s) (iout_max_ic s) (iout_user s)] else []) @
                     (if fle (fmul (vin_min s) (Fin 1.05)) vin \<and>
                         fle vin (fmul (vin_max s) (Fin 0.95))
                      then []
                      else [VinRange (name s) vin (fmul (vin_min s) (Fin 1.1))
                              (fmul (vin_max s) (Fin 0.9))])\<rparr>))"
proof -
  define s1 where "s1 = s\<lparr>errors := [], vin_effective := vin\<rparr>"
  define s2 where "s2 = ldo_dropout_check t s1"
  have s2: "vout s2 = vout s" "iout_user s2 = iout_user s" "iq s2 = iq s"
    "vin_effective s2 = vin" "efficiency_user s2 = efficiency_user s"
    by (simp_all add: s2_def ldo_dropout_check_def s1_def)
  obtain eff0 where eff0: "reg_efficiency t s2 = Some eff0" and
    e: "if t = ''LDO''
        then (if fne vin (Fin 0) then fdiv (fabs (vout s)) (fabs vin) = Some eff0
              else eff0 = Fin 0)
        else eff0 = pymax (Fin 0) (pymin (Fin 1) (efficiency_user s))"
    using reg_efficiency_cases[of t s2] unfolding s2 by blast
  define eff where "eff = pymax (Fin 0) (pymin (Fin 1) eff0)"
  define s3 where "s3 = s2\<lparr>eff_effective := eff\<rparr>"
  have s3: "vout s3 = vout s" "iout_user s3 = iout_user s" "iq s3 = iq s"
    "vin_effective s3 = vin"
    by (simp_all add: s3_def s2)
  define pout where "pout = fmul (fabs (vout s)) (iout_user s)"
  obtain pin iin q where
    pin: "if fgt eff (Fin 0) then fdiv pout eff = Some pin else pin = PInf" and
    iin: "if fne vin (Fin 0) then fdiv pin (fabs vin) = Some iin else iin = PInf" and
    q: "fdiv (iq s) (Fin 1000000) = Some q" and
    rp: "reg_power eff s3 = Some (s3\<lparr>p_out := pout, p_in := pin,
        i_in := iin, p_iq := fmul q vin,
        p_diss := (if isfinite pin then fsub pin pout else PInf),
        p_tot := fadd (if isfinite (if isfinite pin then fsub pin pout else PInf)
                       then (if isfinite pin then fsub pin pout else PInf)
                       else Fin 0) (fmul q vin)\<rparr>)"
    using reg_power_Some[of eff s3] unfolding s3 pout_def[symmetric] by blast
  define pdiss where "pdiss = (if isfinite pin then fsub pin pout else PInf)"
  define R where "R = s3\<lparr>p_out := pout, p_in := pin,
        i_in := iin, p_iq := fmul q vin, p_diss := pdiss,
        p_tot := fadd (if isfinite pdiss then pdiss else Fin 0) (fmul q vin)\<rparr>"
  have res: "compute_reg t s1 = Some (reg_checks R)"
    unfolding compute_reg_def Let_def s2_def[symmetric]
    by (simp add: eff0 eff_def[symmetric] s3_def[symmetric] rp R_def pdiss_def)
  have fin: "reg_checks R = s\<lparr>vin_effective := vin, eff_effective := eff, p_out := pout, p_in := pin,
                   i_in := iin, p_iq := fmul q vin, p_diss := pdiss,
                   p_tot := fadd (if isfinite pdiss then pdiss else Fin 0) (fmul q vin),
                   errors :=
                     (if t = ''LDO'' \<and> fle (fabs vin) (fadd (fabs (vout s)) (Fin 0.1))
                      then [LdoDropout (name s) vin (vout s)] else []) @
                     (if flt (iout_max_ic s) (iout_user s)
                      then [IcMaxCurrent (name s) (iout_max_ic s) (iout_user s)] else []) @
                     (if fle (fmul (vin_min s) (Fin 1.05)) vin \<and>
                         fle vin (fmul (vin_max s) (Fin 0.95))
                      then []
                      else [VinRange (name s) vin (fmul (vin_min s) (Fin 1.1))
                              (fmul (vin_max s) (Fin 0.9))])\<rparr>"
    by (simp add: R_def s3_def s2_def s1_def reg_checks_def ldo_dropout_check_def Let_def)
  show ?thesis
    apply (rule exI[of _ eff0], rule exI[of _ pin], rule exI[of _ iin], rule exI[of _ q])
    unfolding Let_def s1_def[symmetric] res fin
    apply (insert e pin iin q)
    unfolding pout_def eff_def pdiss_def
    apply (intro conjI; (assumption | rule refl))
    done
qed

text \<open>
  Two stages at the edge cases of the regulator branch: a DCDC converter (5 V out,
  0.5 A requested) whose user efficiency is zero, to be fed 12 V, and an LDO (5 V out,
  0.5 A requested), to be fed 0 V.
\<close>

definition dcdc_zero_eff :: stage where
  "dcdc_zero_eff = (PowerStage ''r'')\<lparr>stage_type := ''DCDC'', vout := Fin 5,
                      iout_user := Fin 0.5, efficiency_user := Fin 0\<rparr>"

definition ldo_zero_vin :: stage where
  "ldo_zero_vin = (PowerStage ''r'')\<lparr>vout := Fin 5, iout_user := Fin 0.5\<rparr>"

text \<open>
  Claim C5. For an LDO or DCDC stage \<open>compute\<close> returns (it raises nothing, also when
  the efficiency or the input voltage is zero), and its result is the stage with exactly
  the following fields rewritten. With \<open>vin\<close> the upstream voltage if one is given and
  \<open>vin_nom\<close> otherwise: \<open>vin_effective = vin\<close>; \<open>eff_effective = eff\<close>, where
  \<open>eff\<close> is \<open>eff0\<close> clamped to \<open>[0, 1]\<close> and \<open>eff0\<close> is \<open>|vout| / |vin|\<close>
  for an LDO with \<open>vin != 0\<close>, \<open>0\<close> for an LDO with \<open>vin = 0\<close>, and
  \<open>efficiency_user\<close> clamped to \<open>[0, 1]\<close> for a DCDC;
  \<open>p_out = |vout| * iout_user\<close>; \<open>p_in = p_out / eff\<close> if \<open>eff > 0\<close>, else
  infinity; \<open>i_in = p_in / |vin|\<close> if \<open>vin != 0\<close>, else infinity;
  \<open>p_iq = (iq / 1e6) * vin\<close>; \<open>p_diss = p_in - p_out\<close> if \<open>p_in\<close> is finite, else
  infinity; \<open>p_tot = (p_diss if finite else 0) + p_iq\<close>; and the diagnostics are the
  dropout, maximum-current and input-range messages whose conditions hold, in this order.
  The existentially bound \<open>eff0\<close>, \<open>pin\<close>, \<open>iin\<close> and \<open>q\<close> are the results of the
  divisions, each of which is thereby shown to be defined.
\<close>

theorem compute_regulator_tail:
  assumes "upper (stage_type s) = ''LDO'' \<or> upper (stage_type s) = ''DCDC''"
  shows "\<exists>eff0 pin iin q.
     (let vin = (case upv of Some v \<Rightarrow> v | None \<Rightarrow> vin_nom s);
          ldo = (upper (stage_type s) = ''LDO'');
          eff = pymax (Fin 0) (pymin (Fin 1) eff0);
          pout = fmul (fabs (vout s)) (iout_user s);
          piq = fmul q vin;
          pdiss = (if isfinite pin then fsub pin pout else PInf)
      in (if ldo
          then (if fne vin (Fin 0) then fdiv (fabs (vout s)) (fabs vin) = Some eff0
                else eff0 = Fin 0)
          else eff0 = pymax (Fin 0) (pymin (Fin 1) (efficiency_user s))) \<and>
         (if fgt eff (Fin 0) then fdiv pout eff = Some pin else pin = PInf) \<and>
         (if fne vin (Fin 0) then fdiv pin (fabs vin) = Some iin else iin = PInf) \<and>
         fdiv (iq s) (Fin 1000000) = Some q \<and>
         compute s upv =
           Some (s\<lparr>vin_effective := vin, eff_effective := eff, p_out := pout, p_in := pin,
                   i_in := iin, p_iq := piq, p_diss := pdiss,
                   p_tot := fadd (if isfinite pdiss then pdiss else Fin 0) piq,
                   errors :=
                     (if ldo \<and> fle (fabs vin) (fadd (fabs (vout s)) (Fin 0.1))
                      then [LdoDropout (name s) vin (vout s)] else []) @
                     (if flt (iout_max_ic s) (iout_user s)
                      then [IcMaxCurrent (name s) (iout_max_ic s) (iout_user s)] else []) @
                     (if fle (fmul (vin_min s) (Fin 1.05)) vin \<and>
                         fle vin (fmul (vin_max s) (Fin 0.95))
                      then []
                      else [VinRange (name s) vin (fmul (vin_min s) (Fin 1.1))
                              (fmul (vin_max s) (Fin 0.9))])\<rparr>))"
proof -
  define vin where "vin = (case upv of Some v \<Rightarrow> v | None \<Rightarrow> vin_nom s)"
  have c: "compute s upv = compute_reg (upper (stage_type s)) (s\<lparr>errors := [], vin_effective := vin\<rparr>)"
    using assms by (cases upv) (auto simp: compute_def Let_def vin_def)
  show ?thesis
    using reg_result[OF assms, of s vin]
    unfolding c Let_def vin_def[symmetric] .
qed

theorem compute_regulator_tail_witness:
  "(upper (stage_type dcdc_zero_eff) = ''LDO'' \<or> upper (stage_type dcdc_zero_eff) = ''DCDC'') \<and>
   (upper (stage_type ldo_zero_vin) = ''LDO'' \<or> upper (stage_type ldo_zero_vin) = ''DCDC'') \<and>
   compute dcdc_zero_eff (Some (Fin 12)) =
     Some (dcdc_zero_eff\<lparr>vin_effective := Fin 12, eff_effective := Fin 0, p_out := Fin 2.5,
             p_in := PInf, i_in := PInf, p_iq := Fin 0, p_diss := PInf, p_tot := Fin 0,
             errors := []\<rparr>) \<and>
   compute ldo_zero_vin (Some (Fin 0)) =
     Some (ldo_zero_vin\<lparr>vin_effective := Fin 0, eff_effective := Fin 0, p_out := Fin 2.5,
             p_in := PInf, i_in := PInf, p_iq := Fin 0, p_diss := PInf, p_tot := Fin 0,
             errors := [LdoDropout ''Stage'' (Fin 0) (Fin 5)]\<rparr>)"
proof -
  have h1: "upper (stage_type dcdc_zero_eff) = ''LDO'' \<or> upper (stage_type dcdc_zero_eff) = ''DCDC''"
    by code_simp
  have h2: "upper (stage_type ldo_zero_vin) = ''LDO'' \<or> upper (stage_type ldo_zero_vin) = ''DCDC''"
    by code_simp
  have t1: "upper (stage_type dcdc_zero_eff) \<noteq> ''LDO''" by code_simp
  have t2: "upper (stage_type ldo_zero_vin) = ''LDO''" by code_simp
  have f1: "vout dcdc_zero_eff = Fin 5" "iout_user dcdc_zero_eff = Fin 0.5"
    "efficiency_user dcdc_zero_eff = Fin 0" "iq dcdc_zero_eff = Fin 0"
    "iout_max_ic dcdc_zero_eff = Fin 1" "vin_min dcdc_zero_eff = Fin 0"
    "vin_max dcdc_zero_eff = Fin 20" "name dcdc_zero_eff = ''Stage''"
    by (simp_all add: dcdc_zero_eff_def PowerStage_def)
  have f2: "vout ldo_zero_vin = Fin 5" "iout_user ldo_zero_vin = Fin 0.5"
    "iq ldo_zero_vin = Fin 0"
    "iout_max_ic ldo_zero_vin = Fin 1" "vin_min ldo_zero_vin = Fin 0"
    "vin_max ldo_zero_vin = Fin 20" "name ldo_zero_vin = ''Stage''"
    by (simp_all add: ldo_zero_vin_def PowerStage_def)
  have c1: "compute dcdc_zero_eff (Some (Fin 12)) =
     Some (dcdc_zero_eff\<lparr>vin_effective := Fin 12, eff_effective := Fin 0, p_out := Fin 2.5,
             p_in := PInf, i_in := PInf, p_iq := Fin 0, p_diss := PInf, p_tot := Fin 0,
             errors := []\<rparr>)"
    using compute_regulator_tail[OF h1, of "Some (Fin 12)"]
    by (auto simp: Let_def t1 f1 pymax_def pymin_def fgt_def fne_def inf_of_sign_def)
  have c2: "compute ldo_zero_vin (Some (Fin 0)) =
     Some (ldo_zero_vin\<lparr>vin_effective := Fin 0, eff_effective := Fin 0, p_out := Fin 2.5,
             p_in := PInf, i_in := PInf, p_iq := Fin 0, p_diss := PInf, p_tot := Fin 0,
             errors := [LdoDropout ''Stage'' (Fin 0) (Fin 5)]\<rparr>)"
    using compute_regulator_tail[OF h2, of "Some (Fin 0)"]
    by (auto simp: Let_def t2 f2 pymax_def pymin_def fgt_def fne_def inf_of_sign_def)
  show ?thesis using h1 h2 c1 c2 by blast
qed


subsection \<open>The source branch\<close>

text \<open>
  Claim C6, as amended. For a source (a stage of type INPUT) \<open>compute\<close> sets
  \<open>vin_effective\<close> to the upstream voltage when one is supplied and to the stage's own
  \<open>vin_nom\<close> otherwise, replaces the diagnostics by the out-of-range diagnostic exactly
  when \<open>vout\<close> is not within \<open>[vin_min, vin_max]\<close>, sets \<open>p_out = p_in = vout * iout_user\<close>
  and \<open>i_in = iout_user\<close>, and changes no other field.
\<close>

theorem compute_source:
  assumes "upper (stage_type s) = ''INPUT''"
  shows "compute s upv =
    Some (s\<lparr>errors := (if fle (vin_min s) (vout s) \<and> fle (vout s) (vin_max s) then []
                       else [SourceRange (name s) (vout s) (vin_min s) (vin_max s)]),
            vin_effective := (case upv of Some v \<Rightarrow> v | None \<Rightarrow> vin_nom s),
            p_out := fmul (vout s) (iout_user s),
            p_in := fmul (vout s) (iout_user s),
            i_in := iout_user s\<rparr>)"
  using assms by (cases upv) (simp_all add: compute_def compute_input_def Let_def)

theorem compute_source_witness:
  "upper (stage_type (new_stage ''s'' ''INPUT'' 0)) = ''INPUT'' \<and>
   map_option vin_effective (compute (new_stage ''s'' ''INPUT'' 0) (Some (Fin 5))) = Some (Fin 5) \<and>
   map_option vin_effective (compute (new_stage ''s'' ''INPUT'' 0) None) = Some (Fin 12)"
proof -
  have h: "upper (stage_type (new_stage ''s'' ''INPUT'' 0)) = ''INPUT''"
    by code_simp
  have n: "vin_nom (new_stage ''s'' ''INPUT'' 0) = Fin 12" by code_simp
  show ?thesis
    using h n compute_source[OF h, of "Some (Fin 5)"] compute_source[OF h, of None]
    by simp
qed

text \<open>
  The claim as stated fails: a source with \<open>vin_nom = 12\<close> that is handed an upstream
  voltage of 5 ends with \<open>vin_effective = 5\<close>.
\<close>

theorem source_vin_effective_counterexample:
  "upper (stage_type (new_stage ''s'' ''INPUT'' 0)) = ''INPUT'' \<and>
   vin_nom (new_stage ''s'' ''INPUT'' 0) = Fin 12 \<and>
   map_option vin_effective (compute (new_stage ''s'' ''INPUT'' 0) (Some (Fin 5))) = Some (Fin 5)"
  by code_simp

section \<open>Scenario A, evaluated\<close>

text \<open>
  Claim C9. In the chain source (12 V, band 11 to 13 V, ceiling 2 A), LDO (5 V out),
  load (0.5 A), after the recompute of the second connection the load has
  \<open>i_in = 0.5\<close>, the LDO has \<open>iout_user = 0.5\<close>, \<open>eff_effective = 5/12\<close> and
  \<open>p_out = 2.5\<close>, and no node carries a diagnostic.
\<close>

theorem scenario_a_values:
  "fst scenario_a = [None, None] \<and>
   map stage_id (nodes (snd scenario_a)) = [''s'', ''r'', ''l''] \<and>
   map upstream (nodes (snd scenario_a)) = [None, Some ''s'', Some ''r''] \<and>
   map i_in (nodes (snd scenario_a)) = [Fin 0.5, Fin 0.5, Fin 0.5] \<and>
   map iout_user (nodes (snd scenario_a)) = [Fin 0.5, Fin 0.5, Fin 0.5] \<and>
   map eff_effective (nodes (snd scenario_a)) = [Fin 1, Fin (5 / 12), Fin 1] \<and>
   map p_out (nodes (snd scenario_a)) = [Fin 6, Fin 2.5, Fin 2.5] \<and>
   map errors (nodes (snd scenario_a)) = [[], [], []]"
  by code_simp


section \<open>Recompute keeps the wiring\<close>

text \<open>
  No step of a recompute touches the id, the upstream pointer or the type of a stage,
  and no step raises once \<open>depth\<close> has returned.
\<close>

definition same_wiring :: "stage \<Rightarrow> stage \<Rightarrow> bool" where
  "same_wiring a b \<longleftrightarrow>
     stage_id b = stage_id a \<and> upstream b = upstream a \<and> stage_type b = stage_type a"

lemma same_wiring_refl [simp]: "same_wiring a a"
  by (simp add: same_wiring_def)






definition same_wirings :: "stage list \<Rightarrow> stage list \<Rightarrow> bool" where
  "same_wirings ns ns' = list_all2 same_wiring ns ns'"

lemma same_wirings_refl [simp]: "same_wirings ns ns"
  by (simp add: same_wirings_def list_all2_refl)



lemma distinct_ids_unique:
  "distinct (map stage_id ns) \<Longrightarrow> m \<in> set ns \<Longrightarrow> n \<in> set ns \<Longrightarrow> stage_id m = stage_id n
     \<Longrightarrow> m = n"
  by (auto simp: distinct_map dest: inj_onD)










section \<open>The upstream relation\<close>

text \<open>
  The edges as the upstream pointers give them, from a node to its upstream. The scene
  is acyclic when this relation is.
\<close>

definition upstream_edges :: "stage list \<Rightarrow> (string \<times> string) list" where
  "upstream_edges ns =
     concat (map (\<lambda>n. case upstream n of None \<Rightarrow> [] | Some u \<Rightarrow> [(stage_id n, u)]) ns)"

definition up_rel :: "stage list \<Rightarrow> (string \<times> string) set" where
  "up_rel ns = set (upstream_edges ns)"

lemma up_rel_iff:
  "(c, k) \<in> up_rel ns \<longleftrightarrow> (\<exists>n \<in> set ns. stage_id n = c \<and> upstream n = Some k)"
  by (force simp: up_rel_def upstream_edges_def split: option.splits)











section \<open>The cycle check\<close>


lemma up_rel_functional:
  "distinct (map stage_id ns) \<Longrightarrow> (c, a) \<in> up_rel ns \<Longrightarrow> (c, b) \<in> up_rel ns \<Longrightarrow> a = b"
  unfolding up_rel_iff using distinct_ids_unique by fastforce


lemma nodes_get_None_iff: "nodes_get ns k = None \<longleftrightarrow> k \<notin> stage_id ` set ns"
  by (auto simp: nodes_get_def find_None_iff)




section \<open>add\_edge keeps the scene well formed\<close>














section \<open>add\_edge does not look at the stage types\<close>

text \<open>
  \<open>retype ty g\<close> is the scene \<open>g\<close> with the type of every stage replaced by an
  arbitrary one. Neither the lookup of a node, nor the upstream relation, nor the walk of
  the cycle check changes with it.
\<close>

lemma acyclic_empty_rel [simp]: "acyclic ({} :: ('a \<times> 'a) set)"
  by (simp add: acyclic_def)












section \<open>Sequences of add\_edge calls\<close>








section \<open>The outcome of add\_edge\<close>







end
